theory Spec2Isabelle
  imports Main "HOL-Library.Word"
begin

section \<open>The JNI bridge shim \<^verbatim>\<open>UnityJS.cpp\<close>\<close>

text \<open>
  The file is glue between the Java virtual machine (through JNI), the Unity native
  plugin interface and a message deliverer registered by the managed side. It owns six
  file-scope variables and calls out to foreign code. The model keeps both visible:
  \<^item> the six variables are the first six fields of the record \<open>shim\<close>;
  \<^item> every call that leaves the file (a JNI function, a Unity interface method, the
    Android log, the registered deliverer) is appended, in program order and with its
    arguments and its result, to the field \<open>effects\<close>;
  \<^item> what a foreign function returns is not decided by this file: it is read from a
    record \<open>host\<close> of answer functions, each of which may depend on everything that
    happened before (the list of effects so far);
  \<^item> a call through a null pointer is a \<open>fault\<close>, returned as \<open>Inl\<close>.

  Foreign code is taken not to call back into the entry points of this file while it
  runs, so the only writes to the six variables are the assignments in the source.
  Threads are not modelled: each entry point runs from its first statement to its
  return, and the effects of one run are contiguous in \<open>effects\<close>.
\<close>

subsection \<open>Handles\<close>

text \<open>
  Pointers and references handed over by the virtual machine or by the engine are opaque
  to the shim; it stores them, passes them on or calls through them. Each kind is a
  type of its own. A pointer held in a file-scope variable starts out null, so the
  variables have option types (\<open>None\<close> is the null pointer); a pointer that arrives as
  an argument of an entry point is supplied by the caller's ABI and is not null.
\<close>

datatype JavaVM = JavaVM nat
datatype JNIEnv = JNIEnv nat
datatype jobject = jobject nat
datatype jstring = jstring nat
datatype jclass = jclass nat
datatype jmethodID = jmethodID nat
datatype IUnityInterfaces = IUnityInterfaces nat
datatype IUnityGraphics = IUnityGraphics nat

text \<open>
  \<^verbatim>\<open>const char *\<close> as returned by \<^verbatim>\<open>GetStringUTFChars\<close>: the address of the buffer
  and the text in it.
\<close>

datatype const_char_ptr = const_char_ptr (address: nat) (text_of: string)

text \<open>
  Modelled from the spec: \<^verbatim>\<open>IUnityGraphics.h\<close> is included by the source but is not
  among the files. The spec names four device events (initialize, shutdown, before
  reset, after reset), a backend identifier and its null marker.
\<close>

datatype UnityGfxDeviceEventType =
    kUnityGfxDeviceEventInitialize
  | kUnityGfxDeviceEventShutdown
  | kUnityGfxDeviceEventBeforeReset
  | kUnityGfxDeviceEventAfterReset

datatype UnityGfxRenderer = kUnityGfxRendererNull | kUnityGfxRendererBackend nat

text \<open>The two functions of the file whose addresses are handed out.\<close>

datatype native_function = fn_OnGraphicsDeviceEvent | fn_RenderEventFunc

text \<open>Constants of the system headers \<^verbatim>\<open>jni.h\<close> and \<^verbatim>\<open>android/log.h\<close>.\<close>

definition JNI_VERSION_1_6 :: "32 word" where
  "JNI_VERSION_1_6 = 0x00010006"

definition ANDROID_LOG_DEBUG :: nat where
  "ANDROID_LOG_DEBUG = 3"

subsection \<open>Effects, host and state\<close>

datatype log_arg = ArgStr string | ArgInt int

text \<open>
  One constructor for each foreign call the source makes. The last argument of a
  constructor is the value the call returned, where it returns one. \<open>'p\<close> is the
  type of \<^verbatim>\<open>long\<close> and of a function pointer; the functions below take it to be
  \<open>'w word\<close> for any width \<open>'w\<close> (32 or 64 on Android), and the cast between the two
  in the source keeps the bits.
\<close>

datatype 'p effect =
    E_android_log_print nat string string "log_arg list"
  | E_AttachCurrentThread JavaVM "JNIEnv option"
  | E_Get_IUnityGraphics IUnityInterfaces "IUnityGraphics option"
  | E_RegisterDeviceEventCallback IUnityGraphics native_function
  | E_UnregisterDeviceEventCallback IUnityGraphics native_function
  | E_GetRenderer IUnityGraphics UnityGfxRenderer
  | E_GetStringUTFChars JNIEnv jstring const_char_ptr
  | E_ReleaseStringUTFChars JNIEnv jstring const_char_ptr
  | E_unitySendMessageCallback 'p const_char_ptr const_char_ptr const_char_ptr
  | E_FindClass JNIEnv string jclass
  | E_GetStaticMethodID JNIEnv jclass string string jmethodID
  | E_CallStaticVoidMethod JNIEnv jclass jmethodID

text \<open>
  The answers of the foreign side. \<open>AttachCurrentThread_writes\<close> is given the
  present content of the slot whose address it receives and answers with the content
  it leaves there. \<open>address_of\<close> gives the addresses at which the functions of this
  file were loaded.
\<close>

record 'p host =
  AttachCurrentThread_writes :: "'p effect list \<Rightarrow> JavaVM \<Rightarrow> JNIEnv option \<Rightarrow> JNIEnv option"
  Get_IUnityGraphics_returns :: "'p effect list \<Rightarrow> IUnityInterfaces \<Rightarrow> IUnityGraphics option"
  GetRenderer_returns :: "'p effect list \<Rightarrow> IUnityGraphics \<Rightarrow> UnityGfxRenderer"
  GetStringUTFChars_returns :: "'p effect list \<Rightarrow> JNIEnv \<Rightarrow> jstring \<Rightarrow> const_char_ptr"
  FindClass_returns :: "'p effect list \<Rightarrow> JNIEnv \<Rightarrow> string \<Rightarrow> jclass"
  GetStaticMethodID_returns ::
    "'p effect list \<Rightarrow> JNIEnv \<Rightarrow> jclass \<Rightarrow> string \<Rightarrow> string \<Rightarrow> jmethodID"
  address_of :: "native_function \<Rightarrow> 'p"

record 'p shim =
  java_vm :: "JavaVM option"
  jni_env :: "JNIEnv option"
  unity_interfaces :: "IUnityInterfaces option"
  unity_graphics :: "IUnityGraphics option"
  unity_renderer_type :: UnityGfxRenderer
  unitySendMessageCallback :: 'p
  effects :: "'p effect list"

text \<open>
  A run of a function of the file either returns (\<open>Inr\<close>, with the state and the
  returned value if there is one) or stops at a call through a null pointer (\<open>Inl\<close>,
  with the kind of fault and the state reached when it happened).
\<close>

datatype fault = NullPointerDereference | NullFunctionCall

type_synonym ('p, 'a) result = "fault \<times> 'p shim + 'a"

text \<open>
  The file-scope variables as the loader leaves them: pointers null, the renderer
  type at its initialiser, nothing called yet.
\<close>

definition initial :: "'w::len word shim" where
  "initial = \<lparr>java_vm = None, jni_env = None, unity_interfaces = None,
     unity_graphics = None, unity_renderer_type = kUnityGfxRendererNull,
     unitySendMessageCallback = 0, effects = []\<rparr>"

subsection \<open>Calls that leave the file\<close>

definition emit :: "'p effect \<Rightarrow> 'p shim \<Rightarrow> 'p shim" where
  "emit e s = s\<lparr>effects := effects s @ [e]\<rparr>"

definition then_do :: "('p, 'a) result \<Rightarrow> ('a \<Rightarrow> ('p, 'b) result) \<Rightarrow> ('p, 'b) result" where
  "then_do r f = (case r of Inl x \<Rightarrow> Inl x | Inr a \<Rightarrow> f a)"

text \<open>
  The macro \<^verbatim>\<open>trace(fmt, ...)\<close>: one call of \<^verbatim>\<open>__android_log_print\<close> with priority
  \<^verbatim>\<open>ANDROID_LOG_DEBUG\<close>, tag \<^verbatim>\<open>"Bridge"\<close>, the format prefixed by
  \<^verbatim>\<open>"trace: %s (%i) "\<close> and the arguments prefixed by \<^verbatim>\<open>__FUNCTION__\<close> and
  \<^verbatim>\<open>__LINE__\<close>.
\<close>

definition trace :: "string \<Rightarrow> int \<Rightarrow> string \<Rightarrow> log_arg list \<Rightarrow> 'p shim \<Rightarrow> 'p shim" where
  "trace function line fmt args =
     emit (E_android_log_print ANDROID_LOG_DEBUG ''Bridge'' (''trace: %s (%i) '' @ fmt)
            (ArgStr function # ArgInt line # args))"

text \<open>
  \<^verbatim>\<open>vm->AttachCurrentThread(&jni_env, 0)\<close>: the virtual machine is given the address
  of \<^verbatim>\<open>jni_env\<close> and leaves there what it decides; the status it returns is dropped
  by the source.
\<close>

definition vm_AttachCurrentThread :: "'p host \<Rightarrow> JavaVM \<Rightarrow> 'p shim \<Rightarrow> 'p shim" where
  "vm_AttachCurrentThread h vm s =
     (let e = AttachCurrentThread_writes h (effects s) vm (jni_env s)
      in emit (E_AttachCurrentThread vm e) (s\<lparr>jni_env := e\<rparr>))"

definition ifs_Get_IUnityGraphics ::
  "'p host \<Rightarrow> IUnityInterfaces \<Rightarrow> 'p shim \<Rightarrow> IUnityGraphics option \<times> 'p shim" where
  "ifs_Get_IUnityGraphics h ui s =
     (let g = Get_IUnityGraphics_returns h (effects s) ui
      in (g, emit (E_Get_IUnityGraphics ui g) s))"

text \<open>Calls through the file-scope pointer \<^verbatim>\<open>unity_graphics\<close>.\<close>

definition gfx_RegisterDeviceEventCallback :: "native_function \<Rightarrow> 'p shim \<Rightarrow> ('p, 'p shim) result" where
  "gfx_RegisterDeviceEventCallback f s =
     (case unity_graphics s of
        None \<Rightarrow> Inl (NullPointerDereference, s)
      | Some g \<Rightarrow> Inr (emit (E_RegisterDeviceEventCallback g f) s))"

definition gfx_UnregisterDeviceEventCallback :: "native_function \<Rightarrow> 'p shim \<Rightarrow> ('p, 'p shim) result" where
  "gfx_UnregisterDeviceEventCallback f s =
     (case unity_graphics s of
        None \<Rightarrow> Inl (NullPointerDereference, s)
      | Some g \<Rightarrow> Inr (emit (E_UnregisterDeviceEventCallback g f) s))"

definition gfx_GetRenderer :: "'p host \<Rightarrow> 'p shim \<Rightarrow> ('p, UnityGfxRenderer \<times> 'p shim) result" where
  "gfx_GetRenderer h s =
     (case unity_graphics s of
        None \<Rightarrow> Inl (NullPointerDereference, s)
      | Some g \<Rightarrow>
          (let r = GetRenderer_returns h (effects s) g
           in Inr (r, emit (E_GetRenderer g r) s)))"

text \<open>Calls through the \<^verbatim>\<open>env\<close> argument of a JNI method.\<close>

definition env_GetStringUTFChars ::
  "'p host \<Rightarrow> JNIEnv \<Rightarrow> jstring \<Rightarrow> 'p shim \<Rightarrow> const_char_ptr \<times> 'p shim" where
  "env_GetStringUTFChars h env str s =
     (let c = GetStringUTFChars_returns h (effects s) env str
      in (c, emit (E_GetStringUTFChars env str c) s))"

definition env_ReleaseStringUTFChars ::
  "JNIEnv \<Rightarrow> jstring \<Rightarrow> const_char_ptr \<Rightarrow> 'p shim \<Rightarrow> 'p shim" where
  "env_ReleaseStringUTFChars env str c s = emit (E_ReleaseStringUTFChars env str c) s"

text \<open>Calls through the file-scope pointer \<^verbatim>\<open>jni_env\<close>.\<close>

definition jni_FindClass :: "'p host \<Rightarrow> string \<Rightarrow> 'p shim \<Rightarrow> ('p, jclass \<times> 'p shim) result" where
  "jni_FindClass h name s =
     (case jni_env s of
        None \<Rightarrow> Inl (NullPointerDereference, s)
      | Some e \<Rightarrow>
          (let c = FindClass_returns h (effects s) e name
           in Inr (c, emit (E_FindClass e name c) s)))"

definition jni_GetStaticMethodID ::
  "'p host \<Rightarrow> jclass \<Rightarrow> string \<Rightarrow> string \<Rightarrow> 'p shim \<Rightarrow> ('p, jmethodID \<times> 'p shim) result" where
  "jni_GetStaticMethodID h c name sig s =
     (case jni_env s of
        None \<Rightarrow> Inl (NullPointerDereference, s)
      | Some e \<Rightarrow>
          (let m = GetStaticMethodID_returns h (effects s) e c name sig
           in Inr (m, emit (E_GetStaticMethodID e c name sig m) s)))"

definition jni_CallStaticVoidMethod :: "jclass \<Rightarrow> jmethodID \<Rightarrow> 'p shim \<Rightarrow> ('p, 'p shim) result" where
  "jni_CallStaticVoidMethod c m s =
     (case jni_env s of
        None \<Rightarrow> Inl (NullPointerDereference, s)
      | Some e \<Rightarrow> Inr (emit (E_CallStaticVoidMethod e c m) s))"

text \<open>
  The call \<^verbatim>\<open>unitySendMessageCallback(target, method, message)\<close> through the
  file-scope function pointer.
\<close>

definition call_unitySendMessageCallback ::
  "const_char_ptr \<Rightarrow> const_char_ptr \<Rightarrow> const_char_ptr \<Rightarrow> 'w::len word shim
     \<Rightarrow> ('w word, 'w word shim) result" where
  "call_unitySendMessageCallback target method message s =
     (if unitySendMessageCallback s = 0 then Inl (NullFunctionCall, s)
      else Inr (emit (E_unitySendMessageCallback (unitySendMessageCallback s)
                        target method message) s))"

subsection \<open>The functions of the file\<close>

definition JNI_OnLoad :: "'p host \<Rightarrow> JavaVM \<Rightarrow> nat \<Rightarrow> 'p shim \<Rightarrow> 'p shim \<times> 32 word" where
  "JNI_OnLoad h vm reserved s =
     (let s1 = s\<lparr>java_vm := Some vm\<rparr>;
          s2 = vm_AttachCurrentThread h vm s1
      in (s2, JNI_VERSION_1_6))"

definition OnGraphicsDeviceEvent ::
  "'p host \<Rightarrow> UnityGfxDeviceEventType \<Rightarrow> 'p shim \<Rightarrow> ('p, 'p shim) result" where
  "OnGraphicsDeviceEvent h eventType s =
     (case eventType of
        kUnityGfxDeviceEventInitialize \<Rightarrow>
          then_do (gfx_GetRenderer h s) (\<lambda>(r, s1). Inr (s1\<lparr>unity_renderer_type := r\<rparr>))
      | kUnityGfxDeviceEventShutdown \<Rightarrow> Inr (s\<lparr>unity_renderer_type := kUnityGfxRendererNull\<rparr>)
      | kUnityGfxDeviceEventBeforeReset \<Rightarrow> Inr s
      | kUnityGfxDeviceEventAfterReset \<Rightarrow> Inr s)"

definition UnityPluginLoad :: "'p host \<Rightarrow> IUnityInterfaces \<Rightarrow> 'p shim \<Rightarrow> ('p, 'p shim) result" where
  "UnityPluginLoad h unityInterfaces s =
     (let s1 = s\<lparr>unity_interfaces := Some unityInterfaces\<rparr>;
          (g, s2) = ifs_Get_IUnityGraphics h unityInterfaces s1;
          s3 = s2\<lparr>unity_graphics := g\<rparr>
      in then_do (gfx_RegisterDeviceEventCallback fn_OnGraphicsDeviceEvent s3)
           (\<lambda>s4. OnGraphicsDeviceEvent h kUnityGfxDeviceEventInitialize s4))"

definition UnityPluginUnload :: "'p shim \<Rightarrow> ('p, 'p shim) result" where
  "UnityPluginUnload s = gfx_UnregisterDeviceEventCallback fn_OnGraphicsDeviceEvent s"

definition Java_com_ground_up_software_bridge_CBridgePlugin_SetUnitySendMessageCallback ::
  "JNIEnv \<Rightarrow> jobject \<Rightarrow> 'w::len word \<Rightarrow> 'w word shim \<Rightarrow> 'w word shim" where
  "Java_com_ground_up_software_bridge_CBridgePlugin_SetUnitySendMessageCallback
     env thisObject unitySendMessageCallback_2 s =
     s\<lparr>unitySendMessageCallback := unitySendMessageCallback_2\<rparr>"

definition Java_com_ground_up_software_bridge_CBridgePlugin_UnitySendMessage ::
  "'w::len word host \<Rightarrow> JNIEnv \<Rightarrow> jobject \<Rightarrow> jstring \<Rightarrow> jstring \<Rightarrow> jstring
     \<Rightarrow> 'w word shim \<Rightarrow> ('w word, 'w word shim) result" where
  "Java_com_ground_up_software_bridge_CBridgePlugin_UnitySendMessage
     h env thisObject targetString methodString messageString s =
     (if unitySendMessageCallback s = 0 then
        Inr (trace ''Java_com_ground_up_software_bridge_CBridgePlugin_UnitySendMessage'' 139
               ''Bridge.cpp: Java_com_ground_up_software_bridge_CBridgePlugin_GetRenderEventFunc: called without unitySendMessageCallback: %d''
               [ArgInt 0] s)
      else
        (let (target, s1) = env_GetStringUTFChars h env targetString s;
             (method, s2) = env_GetStringUTFChars h env methodString s1;
             (message, s3) = env_GetStringUTFChars h env messageString s2
         in then_do (call_unitySendMessageCallback target method message s3)
              (\<lambda>s4.
                 let s5 = env_ReleaseStringUTFChars env targetString target s4;
                     s6 = env_ReleaseStringUTFChars env methodString method s5;
                     s7 = env_ReleaseStringUTFChars env messageString message s6
                 in Inr s7)))"

definition Java_com_ground_up_software_bridge_CBridgePlugin_GetRenderEventFunc ::
  "'p host \<Rightarrow> JNIEnv \<Rightarrow> jobject \<Rightarrow> 'p shim \<Rightarrow> 'p shim \<times> 'p" where
  "Java_com_ground_up_software_bridge_CBridgePlugin_GetRenderEventFunc h env thisObject s =
     (s, address_of h fn_RenderEventFunc)"

definition RenderEventFunc :: "'p host \<Rightarrow> 32 word \<Rightarrow> 'p shim \<Rightarrow> ('p, 'p shim) result" where
  "RenderEventFunc h eventId s =
     (if eventId = 0 then Inr s
      else if eventId = 1 then Inr s
      else if eventId = 2 then
        then_do (jni_FindClass h ''com/ground_up_software/bridge/CBridgePlugin'' s)
          (\<lambda>(class_CBridgePlugin, s1).
             then_do (jni_GetStaticMethodID h class_CBridgePlugin
                        ''RenderUpdateBridgePlugins'' ''()V'' s1)
               (\<lambda>(method_CBridgePlugin_RenderUpdateBridgePlugins, s2).
                  jni_CallStaticVoidMethod class_CBridgePlugin
                    method_CBridgePlugin_RenderUpdateBridgePlugins s2))
      else Inr s)"

subsection \<open>The callers\<close>

text \<open>
  The virtual machine, the engine and the managed side reach the file through its
  entry points, one call after the other. \<open>enter\<close> performs one call and drops
  the value it returns; \<open>run\<close> performs a list of calls and stops at the first fault;
  \<open>final\<close> is the state a run ends in, whether it returned or faulted.
\<close>

datatype 'p entry =
    Enter_JNI_OnLoad JavaVM nat
  | Enter_UnityPluginLoad IUnityInterfaces
  | Enter_UnityPluginUnload
  | Enter_OnGraphicsDeviceEvent UnityGfxDeviceEventType
  | Enter_SetUnitySendMessageCallback JNIEnv jobject 'p
  | Enter_UnitySendMessage JNIEnv jobject jstring jstring jstring
  | Enter_GetRenderEventFunc JNIEnv jobject
  | Enter_RenderEventFunc "32 word"

fun enter :: "'w::len word host \<Rightarrow> 'w word entry \<Rightarrow> 'w word shim
    \<Rightarrow> ('w word, 'w word shim) result" where
  "enter h (Enter_JNI_OnLoad vm reserved) s = Inr (fst (JNI_OnLoad h vm reserved s))"
| "enter h (Enter_UnityPluginLoad unityInterfaces) s = UnityPluginLoad h unityInterfaces s"
| "enter h Enter_UnityPluginUnload s = UnityPluginUnload s"
| "enter h (Enter_OnGraphicsDeviceEvent eventType) s = OnGraphicsDeviceEvent h eventType s"
| "enter h (Enter_SetUnitySendMessageCallback env thisObject p) s =
     Inr (Java_com_ground_up_software_bridge_CBridgePlugin_SetUnitySendMessageCallback
            env thisObject p s)"
| "enter h (Enter_UnitySendMessage env thisObject targetString methodString messageString) s =
     Java_com_ground_up_software_bridge_CBridgePlugin_UnitySendMessage
       h env thisObject targetString methodString messageString s"
| "enter h (Enter_GetRenderEventFunc env thisObject) s =
     Inr (fst (Java_com_ground_up_software_bridge_CBridgePlugin_GetRenderEventFunc
                 h env thisObject s))"
| "enter h (Enter_RenderEventFunc eventId) s = RenderEventFunc h eventId s"

fun run :: "'w::len word host \<Rightarrow> 'w word entry list \<Rightarrow> 'w word shim
    \<Rightarrow> ('w word, 'w word shim) result" where
  "run h [] s = Inr s"
| "run h (c # cs) s = then_do (enter h c s) (run h cs)"

definition final :: "('p, 'p shim) result \<Rightarrow> 'p shim" where
  "final r = (case r of Inl (f, s) \<Rightarrow> s | Inr s \<Rightarrow> s)"

fun is_registration :: "'p entry \<Rightarrow> bool" where
  "is_registration (Enter_SetUnitySendMessageCallback env thisObject p) = True"
| "is_registration c = False"

text \<open>
  Reading a list of effects: \<open>since s s'\<close> is what was called between the states
  \<open>s\<close> and \<open>s'\<close>; \<open>invocations\<close> keeps the calls of the deliverer.
\<close>

definition since :: "'p shim \<Rightarrow> 'p shim \<Rightarrow> 'p effect list" where
  "since s s' = drop (length (effects s)) (effects s')"

fun is_invocation :: "'p effect \<Rightarrow> bool" where
  "is_invocation (E_unitySendMessageCallback p target method message) = True"
| "is_invocation e = False"

definition invocations :: "'p effect list \<Rightarrow> 'p effect list" where
  "invocations es = filter is_invocation es"

text \<open>The six file-scope variables hold the same values in two states.\<close>

definition same_variables :: "'p shim \<Rightarrow> 'p shim \<Rightarrow> bool" where
  "same_variables s s' \<longleftrightarrow>
     java_vm s' = java_vm s \<and> jni_env s' = jni_env s \<and>
     unity_interfaces s' = unity_interfaces s \<and> unity_graphics s' = unity_graphics s \<and>
     unity_renderer_type s' = unity_renderer_type s \<and>
     unitySendMessageCallback s' = unitySendMessageCallback s"

text \<open>The pointers called through, in order, in a list of effects.\<close>

fun callees :: "'p effect list \<Rightarrow> 'p list" where
  "callees [] = []"
| "callees (E_unitySendMessageCallback p target method message # es) = p # callees es"
| "callees (e # es) = callees es"

fun is_delivery :: "'p entry \<Rightarrow> bool" where
  "is_delivery (Enter_UnitySendMessage env thisObject targetString methodString messageString) = True"
| "is_delivery c = False"

text \<open>
  The three JNI methods under the names their Java declarations have in class
  \<^verbatim>\<open>com.ground_up_software.bridge.CBridgePlugin\<close>.
\<close>

abbreviation "SetUnitySendMessageCallback \<equiv>
  Java_com_ground_up_software_bridge_CBridgePlugin_SetUnitySendMessageCallback"

abbreviation "UnitySendMessage \<equiv>
  Java_com_ground_up_software_bridge_CBridgePlugin_UnitySendMessage"

abbreviation "GetRenderEventFunc \<equiv>
  Java_com_ground_up_software_bridge_CBridgePlugin_GetRenderEventFunc"

text \<open>
  The log call that line 139 of the source expands to: what a delivery leaves behind
  when no deliverer is registered.
\<close>

definition diagnostic :: "'p effect" where
  "diagnostic = E_android_log_print ANDROID_LOG_DEBUG ''Bridge''
     ''trace: %s (%i) Bridge.cpp: Java_com_ground_up_software_bridge_CBridgePlugin_GetRenderEventFunc: called without unitySendMessageCallback: %d''
     [ArgStr ''Java_com_ground_up_software_bridge_CBridgePlugin_UnitySendMessage'',
      ArgInt 139, ArgInt 0]"

text \<open>A host and handles to evaluate the functions on.\<close>

definition demo_host :: "64 word host" where
  "demo_host = \<lparr>
     AttachCurrentThread_writes = (\<lambda>es vm old. Some (JNIEnv 7)),
     Get_IUnityGraphics_returns = (\<lambda>es ui. Some (IUnityGraphics 5)),
     GetRenderer_returns = (\<lambda>es g. kUnityGfxRendererBackend 11),
     GetStringUTFChars_returns =
       (\<lambda>es env str. case str of jstring n \<Rightarrow>
          const_char_ptr (4096 + 16 * length es)
            (if n = 10 then ''Bridge'' else if n = 20 then ''HandleEvent'' else ''{}'')),
     FindClass_returns = (\<lambda>es env name. jclass 21),
     GetStaticMethodID_returns = (\<lambda>es env c name sig. jmethodID 22),
     address_of = (\<lambda>f. case f of fn_OnGraphicsDeviceEvent \<Rightarrow> 0x7000 | fn_RenderEventFunc \<Rightarrow> 0x7100)\<rparr>"


section \<open>Basic facts\<close>

lemmas call_defs = emit_def then_do_def trace_def vm_AttachCurrentThread_def
  ifs_Get_IUnityGraphics_def gfx_RegisterDeviceEventCallback_def
  gfx_UnregisterDeviceEventCallback_def gfx_GetRenderer_def env_GetStringUTFChars_def
  env_ReleaseStringUTFChars_def jni_FindClass_def jni_GetStaticMethodID_def
  jni_CallStaticVoidMethod_def call_unitySendMessageCallback_def

lemmas entry_defs = JNI_OnLoad_def OnGraphicsDeviceEvent_def UnityPluginLoad_def
  UnityPluginUnload_def
  Java_com_ground_up_software_bridge_CBridgePlugin_SetUnitySendMessageCallback_def
  Java_com_ground_up_software_bridge_CBridgePlugin_UnitySendMessage_def
  Java_com_ground_up_software_bridge_CBridgePlugin_GetRenderEventFunc_def
  RenderEventFunc_def

lemmas eval_defs = entry_defs call_defs initial_def demo_host_def final_def since_def Let_def
  diagnostic_def invocations_def same_variables_def

lemma callees_append: "callees (xs @ ys) = callees xs @ callees ys"
  by (induction xs rule: callees.induct) simp_all

lemma since_append: "effects s' = effects s @ es \<Longrightarrow> since s s' = es"
  by (simp add: since_def)

lemma run_append: "run h (xs @ ys) s = then_do (run h xs s) (run h ys)"
  by (induction xs arbitrary: s) (simp_all add: then_do_def split: sum.splits)

subsection \<open>Delivery\<close>

lemma delivery_without_deliverer:
  fixes s :: "'w::len word shim"
  shows "unitySendMessageCallback s = 0 \<Longrightarrow>
    UnitySendMessage h env thisObject targetString methodString messageString s =
      Inr (s\<lparr>effects := effects s @ [diagnostic]\<rparr>)"
  by (simp add: entry_defs call_defs diagnostic_def)

lemma delivery_returns:
  fixes s :: "'w::len word shim"
  shows "\<exists>s'. UnitySendMessage h env thisObject targetString methodString messageString s = Inr s'
     \<and> same_variables s s'"
  by (simp add: entry_defs call_defs same_variables_def Let_def)

text \<open>
  Any number of deliveries in a row, with no deliverer registered: each one logs the
  diagnostic and nothing else happens.
\<close>

lemma deliveries_without_deliverer:
  fixes s :: "'w::len word shim"
  shows "unitySendMessageCallback s = 0 \<Longrightarrow> \<forall>c\<in>set ds. is_delivery c \<Longrightarrow>
    run h ds s = Inr (s\<lparr>effects := effects s @ replicate (length ds) diagnostic\<rparr>)"
proof (induction ds arbitrary: s)
  case Nil
  then show ?case by simp
next
  case (Cons c ds)
  from Cons.prems obtain env this t m g where c: "c = Enter_UnitySendMessage env this t m g"
    by (cases c) simp_all
  let ?s1 = "s\<lparr>effects := effects s @ [diagnostic]\<rparr>"
  have "run h (c # ds) s = run h ds ?s1"
    using c Cons.prems(1) by (simp add: delivery_without_deliverer then_do_def)
  also have "\<dots> = Inr (?s1\<lparr>effects := effects ?s1 @ replicate (length ds) diagnostic\<rparr>)"
    using Cons.prems by (intro Cons.IH) simp_all
  finally show ?case by simp
qed

subsection \<open>What a call leaves alone\<close>

text \<open>
  One call of any entry point other than the registration keeps the deliverer pointer,
  only appends to the effects, and calls through no pointer but the registered,
  non-null one. This holds for the state a faulting call stops in as well.
\<close>

lemma enter_frame:
  fixes s :: "'w::len word shim"
  assumes "\<not> is_registration c"
  shows "unitySendMessageCallback (final (enter h c s)) = unitySendMessageCallback s \<and>
     (\<exists>es. effects (final (enter h c s)) = effects s @ es \<and>
        set (callees es) \<subseteq> {unitySendMessageCallback s} - {0})"
proof (cases c)
  case (Enter_JNI_OnLoad vm r)
  then show ?thesis by (simp add: final_def entry_defs call_defs Let_def)
next
  case (Enter_UnityPluginLoad ui)
  then show ?thesis
    by (auto simp add: final_def entry_defs call_defs Let_def split: option.splits)
next
  case Enter_UnityPluginUnload
  then show ?thesis
    by (auto simp add: final_def entry_defs call_defs Let_def split: option.splits)
next
  case (Enter_OnGraphicsDeviceEvent ev)
  then show ?thesis
    by (cases ev) (auto simp add: final_def entry_defs call_defs Let_def split: option.splits)
next
  case (Enter_SetUnitySendMessageCallback env this p)
  with assms show ?thesis by simp
next
  case (Enter_UnitySendMessage env this t m g)
  then show ?thesis
    by (auto simp add: final_def entry_defs call_defs Let_def split: option.splits)
next
  case (Enter_GetRenderEventFunc env this)
  then show ?thesis by (simp add: final_def entry_defs call_defs Let_def)
next
  case (Enter_RenderEventFunc n)
  then show ?thesis
    by (auto simp add: final_def entry_defs call_defs Let_def split: option.splits)
qed

lemma run_frame:
  fixes s :: "'w::len word shim"
  assumes "\<forall>c\<in>set cs. \<not> is_registration c"
  shows "unitySendMessageCallback (final (run h cs s)) = unitySendMessageCallback s \<and>
     (\<exists>es. effects (final (run h cs s)) = effects s @ es \<and>
        set (callees es) \<subseteq> {unitySendMessageCallback s} - {0})"
  using assms
proof (induction cs arbitrary: s)
  case Nil
  then show ?case by (simp add: final_def)
next
  case (Cons c cs)
  have c: "\<not> is_registration c" and cs: "\<forall>c\<in>set cs. \<not> is_registration c"
    using Cons.prems by simp_all
  note step = enter_frame [OF c, of h s]
  show ?case
  proof (cases "enter h c s")
    case (Inl x)
    then have "final (run h (c # cs) s) = final (enter h c s)"
      by (simp add: then_do_def final_def)
    with step show ?thesis by simp
  next
    case (Inr s1)
    then have eq: "final (run h (c # cs) s) = final (run h cs s1)"
      by (simp add: then_do_def)
    from Inr step have s1: "unitySendMessageCallback s1 = unitySendMessageCallback s"
      and "\<exists>es. effects s1 = effects s @ es \<and>
        set (callees es) \<subseteq> {unitySendMessageCallback s} - {0}"
      by (simp_all add: final_def)
    then obtain es1 where es1: "effects s1 = effects s @ es1"
      "set (callees es1) \<subseteq> {unitySendMessageCallback s} - {0}" by blast
    from Cons.IH [OF cs, of s1] obtain es2 where
      cb: "unitySendMessageCallback (final (run h cs s1)) = unitySendMessageCallback s1"
      and es2: "effects (final (run h cs s1)) = effects s1 @ es2"
        "set (callees es2) \<subseteq> {unitySendMessageCallback s1} - {0}" by blast
    have "effects (final (run h cs s1)) = effects s @ (es1 @ es2)"
      using es1 es2 by simp
    moreover have "set (callees (es1 @ es2)) \<subseteq> {unitySendMessageCallback s} - {0}"
      using es1 es2 s1 by (simp add: callees_append)
    ultimately show ?thesis using eq cb s1 by metis
  qed
qed

subsection \<open>Where the null pointers are\<close>

text \<open>
  The file-scope pointers the source calls through without a test. The render
  dispatcher faults on code 2 while \<^verbatim>\<open>jni_env\<close> is null; the initialize event and
  plugin unload fault while \<^verbatim>\<open>unity_graphics\<close> is null; plugin load faults when the
  engine has no graphics interface to give.
\<close>

lemma RenderEventFunc_without_env:
  "jni_env s = None \<Longrightarrow> RenderEventFunc h 2 s = Inl (NullPointerDereference, s)"
  by (simp add: RenderEventFunc_def call_defs)

lemma OnGraphicsDeviceEvent_without_graphics:
  "unity_graphics s = None \<Longrightarrow>
     OnGraphicsDeviceEvent h kUnityGfxDeviceEventInitialize s = Inl (NullPointerDereference, s)"
  by (simp add: entry_defs call_defs)

lemma UnityPluginLoad_without_graphics:
  "Get_IUnityGraphics_returns h (effects s) unityInterfaces = None \<Longrightarrow>
     \<exists>s'. UnityPluginLoad h unityInterfaces s = Inl (NullPointerDereference, s')"
  by (simp add: entry_defs call_defs Let_def)

lemma UnityPluginUnload_before_load:
  "unity_graphics s = None \<Longrightarrow> UnityPluginUnload s = Inl (NullPointerDereference, s)"
  by (simp add: entry_defs call_defs Let_def)

text \<open>
  The engine notifies a device event through the callback that plugin load registered.
  Once a plugin load has returned, \<^verbatim>\<open>unity_graphics\<close> is set in every later state of
  the run, so a notification finds the interface it queries.
\<close>

lemma enter_keeps_graphics:
  fixes s :: "'w::len word shim"
  shows "enter h c s = Inr s' \<Longrightarrow> unity_graphics s \<noteq> None \<Longrightarrow> unity_graphics s' \<noteq> None"
proof (cases c)
  case (Enter_OnGraphicsDeviceEvent ev)
  then show "enter h c s = Inr s' \<Longrightarrow> unity_graphics s \<noteq> None \<Longrightarrow> unity_graphics s' \<noteq> None"
    by (cases ev) (auto simp add: entry_defs call_defs Let_def split: option.splits if_splits)
qed (auto simp add: entry_defs call_defs Let_def split: option.splits if_splits)

lemma run_keeps_graphics:
  fixes s :: "'w::len word shim"
  shows "run h cs s = Inr s' \<Longrightarrow> unity_graphics s \<noteq> None \<Longrightarrow> unity_graphics s' \<noteq> None"
proof (induction cs arbitrary: s)
  case Nil
  then show ?case by simp
next
  case (Cons c cs)
  from Cons.prems(1) obtain s1 where s1: "enter h c s = Inr s1" and rest: "run h cs s1 = Inr s'"
    by (auto simp: then_do_def split: sum.splits)
  from enter_keeps_graphics [OF s1 Cons.prems(2)] Cons.IH [OF rest] show ?case by blast
qed

lemma UnityPluginLoad_sets_graphics:
  "UnityPluginLoad h unityInterfaces s = Inr s' \<Longrightarrow> unity_graphics s' \<noteq> None"
  by (auto simp add: entry_defs call_defs Let_def split: option.splits)

lemma graphics_present_after_load:
  fixes s :: "'w::len word shim"
  assumes "run h (cs @ Enter_UnityPluginLoad unityInterfaces # cs') s = Inr s'"
  shows "unity_graphics s' \<noteq> None"
proof -
  from assms obtain s1 s2 where "run h cs s = Inr s1"
    and load: "UnityPluginLoad h unityInterfaces s1 = Inr s2" and rest: "run h cs' s2 = Inr s'"
    by (auto simp: run_append then_do_def split: sum.splits)
  from run_keeps_graphics [OF rest UnityPluginLoad_sets_graphics [OF load]] show ?thesis .
qed

section \<open>The message relay\<close>

text \<open>
  Claim C1. With a deliverer registered (the stored pointer is not null), a delivery
  returns, and what it has called is, in this order: the extraction of the target, of
  the method and of the message text from the three Java strings, one call of the
  registered deliverer with exactly the three extracted values as (target, method,
  message), and the release of the three buffers, each with the string it was taken
  from. The deliverer is called once; the call sits between extraction and release
  in the run of the entry point itself, which is what synchronous means in a model
  without threads. The six variables are as before.
\<close>

theorem UnitySendMessage_invokes_deliverer_once:
  fixes s :: "'w::len word shim"
  shows "unitySendMessageCallback s \<noteq> 0 \<Longrightarrow>
    (let target = GetStringUTFChars_returns h (effects s) env targetString;
         e1 = E_GetStringUTFChars env targetString target;
         method = GetStringUTFChars_returns h (effects s @ [e1]) env methodString;
         e2 = E_GetStringUTFChars env methodString method;
         message = GetStringUTFChars_returns h (effects s @ [e1, e2]) env messageString;
         e3 = E_GetStringUTFChars env messageString message;
         called = [e1, e2, e3,
                   E_unitySendMessageCallback (unitySendMessageCallback s) target method message,
                   E_ReleaseStringUTFChars env targetString target,
                   E_ReleaseStringUTFChars env methodString method,
                   E_ReleaseStringUTFChars env messageString message]
     in UnitySendMessage h env thisObject targetString methodString messageString s
        = Inr (s\<lparr>effects := effects s @ called\<rparr>)
      \<and> invocations called =
          [E_unitySendMessageCallback (unitySendMessageCallback s) target method message])"
  by (simp add: Java_com_ground_up_software_bridge_CBridgePlugin_UnitySendMessage_def
      call_defs Let_def invocations_def)

theorem UnitySendMessage_invokes_deliverer_once_witness:
  "unitySendMessageCallback (initial\<lparr>unitySendMessageCallback := 0x5000\<rparr> :: 64 word shim) \<noteq> 0 \<and>
   UnitySendMessage demo_host (JNIEnv 7) (jobject 9) (jstring 10) (jstring 20) (jstring 30)
     (initial\<lparr>unitySendMessageCallback := 0x5000\<rparr>)
   = Inr (initial\<lparr>unitySendMessageCallback := 0x5000, effects :=
       [E_GetStringUTFChars (JNIEnv 7) (jstring 10) (const_char_ptr 4096 ''Bridge''),
        E_GetStringUTFChars (JNIEnv 7) (jstring 20) (const_char_ptr 4112 ''HandleEvent''),
        E_GetStringUTFChars (JNIEnv 7) (jstring 30) (const_char_ptr 4128 ''{}''),
        E_unitySendMessageCallback 0x5000 (const_char_ptr 4096 ''Bridge'')
          (const_char_ptr 4112 ''HandleEvent'') (const_char_ptr 4128 ''{}''),
        E_ReleaseStringUTFChars (JNIEnv 7) (jstring 10) (const_char_ptr 4096 ''Bridge''),
        E_ReleaseStringUTFChars (JNIEnv 7) (jstring 20) (const_char_ptr 4112 ''HandleEvent''),
        E_ReleaseStringUTFChars (JNIEnv 7) (jstring 30) (const_char_ptr 4128 ''{}'')]\<rparr>)"
  using UnitySendMessage_invokes_deliverer_once
    [where s = "initial\<lparr>unitySendMessageCallback := 0x5000\<rparr> :: 64 word shim"
      and h = demo_host and env = "JNIEnv 7" and thisObject = "jobject 9"
      and targetString = "jstring 10" and methodString = "jstring 20"
      and messageString = "jstring 30"]
  by (simp add: Let_def demo_host_def initial_def)

text \<open>
  Claim C2. With no deliverer registered (the stored pointer is null), a delivery
  returns for every triple of strings; it does not fault, it calls nothing but the
  Android log, once, with the diagnostic of line 139, and it calls no deliverer. The
  six variables are as before, and nothing is reported to the caller.
\<close>

theorem UnitySendMessage_unregistered_noop:
  fixes s :: "'w::len word shim"
  shows "unitySendMessageCallback s = 0 \<Longrightarrow>
    UnitySendMessage h env thisObject targetString methodString messageString s
      = Inr (s\<lparr>effects := effects s @
          [E_android_log_print ANDROID_LOG_DEBUG ''Bridge''
            ''trace: %s (%i) Bridge.cpp: Java_com_ground_up_software_bridge_CBridgePlugin_GetRenderEventFunc: called without unitySendMessageCallback: %d''
            [ArgStr ''Java_com_ground_up_software_bridge_CBridgePlugin_UnitySendMessage'',
             ArgInt 139, ArgInt 0]]\<rparr>)
    \<and> invocations (since s (final
          (UnitySendMessage h env thisObject targetString methodString messageString s))) = []"
  by (simp add: entry_defs call_defs since_def final_def invocations_def)

theorem UnitySendMessage_unregistered_noop_witness:
  "unitySendMessageCallback (initial :: 64 word shim) = 0 \<and>
   UnitySendMessage demo_host (JNIEnv 7) (jobject 9) (jstring 10) (jstring 20) (jstring 30) initial
     = Inr (initial\<lparr>effects := [diagnostic]\<rparr>)"
  using UnitySendMessage_unregistered_noop
    [where s = "initial :: 64 word shim" and h = demo_host and env = "JNIEnv 7"
      and thisObject = "jobject 9" and targetString = "jstring 10"
      and methodString = "jstring 20" and messageString = "jstring 30"]
  by (simp add: initial_def diagnostic_def)

text \<open>
  Claim C3. The registration stores its pointer argument, whatever it is, and does
  nothing else: the other variables and the effects are untouched. A second
  registration overwrites the first. After registering \<open>p_a\<close> and then \<open>p_b\<close>,
  however the entry points other than the registration are called afterwards, the
  stored pointer stays \<open>p_b\<close> and no pointer other than \<open>p_b\<close> is called through;
  and when \<open>p_b\<close> is not null a delivery calls \<open>p_b\<close>, once.
\<close>

theorem SetUnitySendMessageCallback_last_write_wins:
  fixes s :: "'w::len word shim"
  shows "SetUnitySendMessageCallback env thisObject p s = s\<lparr>unitySendMessageCallback := p\<rparr>
    \<and> effects (SetUnitySendMessageCallback env thisObject p s) = effects s
    \<and> SetUnitySendMessageCallback env_b this_b p_b (SetUnitySendMessageCallback env_a this_a p_a s)
        = SetUnitySendMessageCallback env_b this_b p_b s
    \<and> (\<forall>cs. (\<forall>c\<in>set cs. \<not> is_registration c) \<longrightarrow>
         (let s' = final (run h cs
                (SetUnitySendMessageCallback env_b this_b p_b
                  (SetUnitySendMessageCallback env_a this_a p_a s)))
          in unitySendMessageCallback s' = p_b \<and> set (callees (since s s')) \<subseteq> {p_b}))
    \<and> (p_b \<noteq> 0 \<longrightarrow>
         (\<exists>s'. UnitySendMessage h env_c this_c targetString methodString messageString
                (SetUnitySendMessageCallback env_b this_b p_b
                  (SetUnitySendMessageCallback env_a this_a p_a s)) = Inr s'
            \<and> callees (since s s') = [p_b]))"
proof -
  let ?s2 = "SetUnitySendMessageCallback env_b this_b p_b
               (SetUnitySendMessageCallback env_a this_a p_a s)"
  have s2: "?s2 = s\<lparr>unitySendMessageCallback := p_b\<rparr>"
    by (simp add: entry_defs)
  have a: "SetUnitySendMessageCallback env thisObject p s = s\<lparr>unitySendMessageCallback := p\<rparr>"
    by (simp add: entry_defs)
  have a': "effects (SetUnitySendMessageCallback env thisObject p s) = effects s"
    by (simp add: entry_defs)
  have b: "?s2 = SetUnitySendMessageCallback env_b this_b p_b s"
    by (simp add: entry_defs)
  have c: "\<forall>cs. (\<forall>c\<in>set cs. \<not> is_registration c) \<longrightarrow>
         (let s' = final (run h cs ?s2)
          in unitySendMessageCallback s' = p_b \<and> set (callees (since s s')) \<subseteq> {p_b})"
  proof (intro allI impI)
    fix cs :: "'w word entry list"
    assume cs: "\<forall>c\<in>set cs. \<not> is_registration c"
    from run_frame [OF cs, of h ?s2]
    obtain es where cb: "unitySendMessageCallback (final (run h cs ?s2)) = p_b"
      and es: "effects (final (run h cs ?s2)) = effects s @ es"
      and callees: "set (callees es) \<subseteq> {p_b} - {0}"
      unfolding s2 by auto
    from es have "since s (final (run h cs ?s2)) = es" by (rule since_append)
    with cb callees
    show "let s' = final (run h cs ?s2)
          in unitySendMessageCallback s' = p_b \<and> set (callees (since s s')) \<subseteq> {p_b}"
      unfolding Let_def by blast
  qed
  have d: "p_b \<noteq> 0 \<longrightarrow>
         (\<exists>s'. UnitySendMessage h env_c this_c targetString methodString messageString ?s2 = Inr s'
            \<and> callees (since s s') = [p_b])"
    unfolding s2 by (simp add: entry_defs call_defs Let_def since_def)
  show ?thesis by (intro conjI a a' b c d)
qed

theorem SetUnitySendMessageCallback_last_write_wins_witness:
  "\<not> is_registration
      (Enter_UnitySendMessage (JNIEnv 7) (jobject 9) (jstring 10) (jstring 20) (jstring 30)
        :: 64 word entry) \<and>
   \<not> is_registration (Enter_RenderEventFunc 0 :: 64 word entry) \<and>
   \<not> is_registration
      (Enter_UnitySendMessage (JNIEnv 7) (jobject 9) (jstring 10) (jstring 20) (jstring 40)
        :: 64 word entry) \<and>
   (0x6000 :: 64 word) \<noteq> 0 \<and>
   callees (since initial (final (run demo_host
      [Enter_UnitySendMessage (JNIEnv 7) (jobject 9) (jstring 10) (jstring 20) (jstring 30),
       Enter_RenderEventFunc 0,
       Enter_UnitySendMessage (JNIEnv 7) (jobject 9) (jstring 10) (jstring 20) (jstring 40)]
      (SetUnitySendMessageCallback (JNIEnv 7) (jobject 9) 0x6000
        (SetUnitySendMessageCallback (JNIEnv 7) (jobject 9) 0x5000 initial))))) = [0x6000, 0x6000]"
  using SetUnitySendMessageCallback_last_write_wins
    [where s = "initial :: 64 word shim" and h = demo_host and p_a = "0x5000" and p_b = "0x6000"
      and env_a = "JNIEnv 7" and this_a = "jobject 9" and env_b = "JNIEnv 7"
      and this_b = "jobject 9"]
  by (simp add: eval_defs)

section \<open>The render-thread dispatcher\<close>

text \<open>
  Claim C4. Event codes 0 and 1 return at once with the state as it was, and so does
  every code other than 0, 1 and 2: nothing is called and no variable changes. Code 2,
  with the environment handle \<^verbatim>\<open>jni_env\<close> in place, looks up the class
  \<^verbatim>\<open>com/ground_up_software/bridge/CBridgePlugin\<close>, then its static method
  \<^verbatim>\<open>RenderUpdateBridgePlugins\<close> of signature \<^verbatim>\<open>()V\<close>, then calls that method once
  with what the two lookups returned, and returns. Nothing is kept from one
  invocation to the next: the state differs only in its effects, and a second
  invocation performs both lookups again.
\<close>

theorem RenderEventFunc_dispatch:
  "RenderEventFunc h 0 s = Inr s
   \<and> RenderEventFunc h 1 s = Inr s
   \<and> (eventId \<notin> {0, 1, 2} \<longrightarrow> RenderEventFunc h eventId s = Inr s)
   \<and> (jni_env s = Some e \<longrightarrow>
        (let c = FindClass_returns h (effects s) e ''com/ground_up_software/bridge/CBridgePlugin'';
             find = E_FindClass e ''com/ground_up_software/bridge/CBridgePlugin'' c;
             m = GetStaticMethodID_returns h (effects s @ [find]) e c
                   ''RenderUpdateBridgePlugins'' ''()V'';
             get = E_GetStaticMethodID e c ''RenderUpdateBridgePlugins'' ''()V'' m;
             s' = s\<lparr>effects := effects s @ [find, get, E_CallStaticVoidMethod e c m]\<rparr>;
             c' = FindClass_returns h (effects s') e ''com/ground_up_software/bridge/CBridgePlugin'';
             find' = E_FindClass e ''com/ground_up_software/bridge/CBridgePlugin'' c';
             m' = GetStaticMethodID_returns h (effects s' @ [find']) e c'
                   ''RenderUpdateBridgePlugins'' ''()V'';
             get' = E_GetStaticMethodID e c' ''RenderUpdateBridgePlugins'' ''()V'' m'
         in RenderEventFunc h 2 s = Inr s'
          \<and> RenderEventFunc h 2 s' =
              Inr (s'\<lparr>effects := effects s' @ [find', get', E_CallStaticVoidMethod e c' m']\<rparr>)))"
  by (simp add: RenderEventFunc_def call_defs Let_def)

theorem RenderEventFunc_dispatch_witness:
  "(5 :: 32 word) \<notin> {0, 1, 2}
   \<and> RenderEventFunc demo_host 5 (initial\<lparr>jni_env := Some (JNIEnv 7)\<rparr>)
        = Inr (initial\<lparr>jni_env := Some (JNIEnv 7)\<rparr>)
   \<and> jni_env (initial\<lparr>jni_env := Some (JNIEnv 7)\<rparr> :: 64 word shim) = Some (JNIEnv 7)
   \<and> RenderEventFunc demo_host 2 (initial\<lparr>jni_env := Some (JNIEnv 7)\<rparr>)
        = Inr (initial\<lparr>jni_env := Some (JNIEnv 7), effects :=
            [E_FindClass (JNIEnv 7) ''com/ground_up_software/bridge/CBridgePlugin'' (jclass 21),
             E_GetStaticMethodID (JNIEnv 7) (jclass 21) ''RenderUpdateBridgePlugins'' ''()V''
               (jmethodID 22),
             E_CallStaticVoidMethod (JNIEnv 7) (jclass 21) (jmethodID 22)]\<rparr>)"
  using RenderEventFunc_dispatch
    [where h = demo_host and s = "initial\<lparr>jni_env := Some (JNIEnv 7)\<rparr>"
      and eventId = 5 and e = "JNIEnv 7"]
  by (simp add: Let_def demo_host_def initial_def)

text \<open>
  Claim C8. The accessor returns the address of \<^verbatim>\<open>RenderEventFunc\<close> and leaves the
  state, effects included, as it was; the value does not depend on the arguments or
  on the state, so every call returns the same one.
\<close>

theorem GetRenderEventFunc_returns_dispatcher_address:
  "GetRenderEventFunc h env thisObject s = (s, address_of h fn_RenderEventFunc)
   \<and> snd (GetRenderEventFunc h env thisObject s) = snd (GetRenderEventFunc h env' thisObject' s')"
  by (simp add: Java_com_ground_up_software_bridge_CBridgePlugin_GetRenderEventFunc_def)

theorem GetRenderEventFunc_returns_dispatcher_address_witness:
  "GetRenderEventFunc demo_host (JNIEnv 7) (jobject 9) initial = (initial, 0x7100)"
  using GetRenderEventFunc_returns_dispatcher_address
    [where h = demo_host and s = "initial :: 64 word shim" and env = "JNIEnv 7"
      and thisObject = "jobject 9"]
  by (simp add: demo_host_def)

section \<open>The lifecycle notifier\<close>

text \<open>
  Claim C5. On the initialize event, with the graphics interface in place, the shim
  calls \<^verbatim>\<open>GetRenderer\<close> on it once and stores the value returned by that very call
  in \<^verbatim>\<open>unity_renderer_type\<close>. On the shutdown event it stores the null marker and
  calls nothing. On the before-reset and after-reset events the state is returned as
  it was.
\<close>

theorem OnGraphicsDeviceEvent_tracks_renderer:
  "(unity_graphics s = Some g \<longrightarrow>
      (let r = GetRenderer_returns h (effects s) g
       in OnGraphicsDeviceEvent h kUnityGfxDeviceEventInitialize s =
            Inr (s\<lparr>unity_renderer_type := r, effects := effects s @ [E_GetRenderer g r]\<rparr>)))
   \<and> OnGraphicsDeviceEvent h kUnityGfxDeviceEventShutdown s =
        Inr (s\<lparr>unity_renderer_type := kUnityGfxRendererNull\<rparr>)
   \<and> OnGraphicsDeviceEvent h kUnityGfxDeviceEventBeforeReset s = Inr s
   \<and> OnGraphicsDeviceEvent h kUnityGfxDeviceEventAfterReset s = Inr s"
  by (simp add: OnGraphicsDeviceEvent_def call_defs Let_def)

theorem OnGraphicsDeviceEvent_tracks_renderer_witness:
  "unity_graphics (initial\<lparr>unity_graphics := Some (IUnityGraphics 5)\<rparr> :: 64 word shim)
     = Some (IUnityGraphics 5)
   \<and> OnGraphicsDeviceEvent demo_host kUnityGfxDeviceEventInitialize
        (initial\<lparr>unity_graphics := Some (IUnityGraphics 5)\<rparr>)
      = Inr (initial\<lparr>unity_graphics := Some (IUnityGraphics 5),
               unity_renderer_type := kUnityGfxRendererBackend 11,
               effects := [E_GetRenderer (IUnityGraphics 5) (kUnityGfxRendererBackend 11)]\<rparr>)
   \<and> then_do (OnGraphicsDeviceEvent demo_host kUnityGfxDeviceEventInitialize
                (initial\<lparr>unity_graphics := Some (IUnityGraphics 5)\<rparr>))
        (OnGraphicsDeviceEvent demo_host kUnityGfxDeviceEventShutdown)
      = Inr (initial\<lparr>unity_graphics := Some (IUnityGraphics 5),
               effects := [E_GetRenderer (IUnityGraphics 5) (kUnityGfxRendererBackend 11)]\<rparr>)"
  using OnGraphicsDeviceEvent_tracks_renderer
      [where h = demo_host and s = "initial\<lparr>unity_graphics := Some (IUnityGraphics 5)\<rparr>"
        and g = "IUnityGraphics 5"]
    OnGraphicsDeviceEvent_tracks_renderer
      [where h = demo_host and s = "initial\<lparr>unity_graphics := Some (IUnityGraphics 5),
               unity_renderer_type := kUnityGfxRendererBackend 11,
               effects := [E_GetRenderer (IUnityGraphics 5) (kUnityGfxRendererBackend 11)]\<rparr>"]
  by (simp add: Let_def demo_host_def initial_def then_do_def)

text \<open>
  Claim C6. Plugin load, when the engine hands out a graphics interface, stores the
  interfaces handle, asks it for the graphics interface and stores that, registers
  \<^verbatim>\<open>OnGraphicsDeviceEvent\<close> on it, and then runs \<^verbatim>\<open>OnGraphicsDeviceEvent\<close> on the
  initialize event itself, so that the renderer type reported by the interface is
  stored when load returns. Plugin unload, in the state load returned, unregisters
  the same function on the same interface.
\<close>

theorem UnityPluginLoad_then_Unload:
  "Get_IUnityGraphics_returns h (effects s) unityInterfaces = Some g \<Longrightarrow>
    (let get = E_Get_IUnityGraphics unityInterfaces (Some g);
         register = E_RegisterDeviceEventCallback g fn_OnGraphicsDeviceEvent;
         registered = s\<lparr>unity_interfaces := Some unityInterfaces, unity_graphics := Some g,
                        effects := effects s @ [get, register]\<rparr>;
         r = GetRenderer_returns h (effects registered) g;
         loaded = registered\<lparr>unity_renderer_type := r,
                    effects := effects registered @ [E_GetRenderer g r]\<rparr>
     in UnityPluginLoad h unityInterfaces s = Inr loaded
      \<and> UnityPluginLoad h unityInterfaces s =
          OnGraphicsDeviceEvent h kUnityGfxDeviceEventInitialize registered
      \<and> UnityPluginUnload loaded =
          Inr (loaded\<lparr>effects := effects loaded @
                 [E_UnregisterDeviceEventCallback g fn_OnGraphicsDeviceEvent]\<rparr>))"
  by (simp add: UnityPluginLoad_def UnityPluginUnload_def OnGraphicsDeviceEvent_def
      call_defs Let_def)

theorem UnityPluginLoad_then_Unload_witness:
  "Get_IUnityGraphics_returns demo_host (effects (initial :: 64 word shim)) (IUnityInterfaces 3)
     = Some (IUnityGraphics 5)
   \<and> then_do (UnityPluginLoad demo_host (IUnityInterfaces 3) initial) UnityPluginUnload
      = Inr (initial\<lparr>unity_interfaces := Some (IUnityInterfaces 3),
               unity_graphics := Some (IUnityGraphics 5),
               unity_renderer_type := kUnityGfxRendererBackend 11,
               effects :=
                 [E_Get_IUnityGraphics (IUnityInterfaces 3) (Some (IUnityGraphics 5)),
                  E_RegisterDeviceEventCallback (IUnityGraphics 5) fn_OnGraphicsDeviceEvent,
                  E_GetRenderer (IUnityGraphics 5) (kUnityGfxRendererBackend 11),
                  E_UnregisterDeviceEventCallback (IUnityGraphics 5) fn_OnGraphicsDeviceEvent]\<rparr>)"
  using UnityPluginLoad_then_Unload
    [where h = demo_host and s = "initial :: 64 word shim"
      and unityInterfaces = "IUnityInterfaces 3" and g = "IUnityGraphics 5"]
  by (simp add: Let_def demo_host_def initial_def then_do_def)

text \<open>
  Claim C7. Library attach stores the virtual-machine handle in \<^verbatim>\<open>java_vm\<close>, calls
  \<^verbatim>\<open>AttachCurrentThread\<close> on it once with the address of \<^verbatim>\<open>jni_env\<close>, so that
  \<^verbatim>\<open>jni_env\<close> holds the environment handle the virtual machine put there, and
  returns \<^verbatim>\<open>JNI_VERSION_1_6\<close>, which is \<^verbatim>\<open>0x00010006\<close>. This holds in every state
  and for every handle, hence at every invocation.
\<close>

theorem JNI_OnLoad_attaches_and_reports_version:
  "(let e = AttachCurrentThread_writes h (effects s) vm (jni_env s)
    in JNI_OnLoad h vm reserved s =
         (s\<lparr>java_vm := Some vm, jni_env := e,
             effects := effects s @ [E_AttachCurrentThread vm e]\<rparr>, JNI_VERSION_1_6))
   \<and> snd (JNI_OnLoad h vm reserved s) = 0x00010006"
  by (simp add: JNI_OnLoad_def call_defs Let_def JNI_VERSION_1_6_def)

theorem JNI_OnLoad_attaches_and_reports_version_witness:
  "JNI_OnLoad demo_host (JavaVM 2) 0 (initial :: 64 word shim) =
     (initial\<lparr>java_vm := Some (JavaVM 2), jni_env := Some (JNIEnv 7),
         effects := [E_AttachCurrentThread (JavaVM 2) (Some (JNIEnv 7))]\<rparr>, 0x00010006)"
  using JNI_OnLoad_attaches_and_reports_version
    [where h = demo_host and s = "initial :: 64 word shim" and vm = "JavaVM 2" and reserved = 0]
  by (simp add: Let_def demo_host_def initial_def JNI_VERSION_1_6_def)

section \<open>The deliverer pointer over time\<close>

text \<open>
  Claim C9. A delivery returns, for every triple of strings and in every state, with
  the six file-scope variables (the virtual-machine handle, the environment handle,
  the two graphics handles, the renderer type and the deliverer pointer) holding the
  values they held before, whether a deliverer is registered or not. No entry point
  other than the registration changes the deliverer pointer, and the registration
  sets it to its argument.
\<close>

theorem UnitySendMessage_frame:
  fixes s :: "'w::len word shim"
  shows "(\<exists>s'. UnitySendMessage h env thisObject targetString methodString messageString s = Inr s'
            \<and> same_variables s s')
   \<and> (\<forall>c. \<not> is_registration c \<longrightarrow>
         unitySendMessageCallback (final (enter h c s)) = unitySendMessageCallback s)
   \<and> unitySendMessageCallback (SetUnitySendMessageCallback env thisObject p s) = p"
  using delivery_returns [of h env thisObject targetString methodString messageString s]
    enter_frame [of _ h s]
  by (simp add: Java_com_ground_up_software_bridge_CBridgePlugin_SetUnitySendMessageCallback_def)

theorem UnitySendMessage_frame_witness:
  "\<not> is_registration (Enter_JNI_OnLoad (JavaVM 2) 0 :: 64 word entry)
   \<and> unitySendMessageCallback (final (enter demo_host (Enter_JNI_OnLoad (JavaVM 2) 0)
        (initial\<lparr>unitySendMessageCallback := 0x5000\<rparr>))) = 0x5000
   \<and> same_variables (initial\<lparr>unitySendMessageCallback := 0x5000\<rparr> :: 64 word shim)
        (final (UnitySendMessage demo_host (JNIEnv 7) (jobject 9) (jstring 10) (jstring 20)
           (jstring 30) (initial\<lparr>unitySendMessageCallback := 0x5000\<rparr>)))"
  using UnitySendMessage_frame
    [where h = demo_host and s = "initial\<lparr>unitySendMessageCallback := 0x5000\<rparr>"]
  by (simp add: eval_defs)

text \<open>
  Claim C10. The registration takes the null pointer like any other value. After a
  deliverer \<open>p\<close> was registered (and, when \<open>p\<close> is not null, was called by a
  delivery), registering 0 leaves the stored pointer null; from then on a delivery
  returns having logged the diagnostic and nothing else, and so does each of any
  number of deliveries in a row. The test is made at each call: after a later
  registration of a non-null \<open>q\<close>, the next delivery calls \<open>q\<close>, while the one
  before it only logged.
\<close>

theorem registering_null_unregisters:
  fixes s :: "'w::len word shim"
  shows "(let unregistered =
            SetUnitySendMessageCallback env_b this_b 0
              (SetUnitySendMessageCallback env_a this_a p s);
          deliver = Enter_UnitySendMessage env thisObject targetString methodString messageString
     in (p \<noteq> 0 \<longrightarrow> callees (since s (final (enter h deliver
            (SetUnitySendMessageCallback env_a this_a p s)))) = [p])
      \<and> unitySendMessageCallback unregistered = 0
      \<and> enter h deliver unregistered =
          Inr (unregistered\<lparr>effects := effects unregistered @ [diagnostic]\<rparr>)
      \<and> (\<forall>ds. (\<forall>c\<in>set ds. is_delivery c) \<longrightarrow>
            run h ds unregistered =
              Inr (unregistered\<lparr>effects := effects unregistered @
                     replicate (length ds) diagnostic\<rparr>))
      \<and> (q \<noteq> 0 \<longrightarrow>
            (let s' = final (run h [deliver,
                         Enter_SetUnitySendMessageCallback env_c this_c q, deliver] unregistered)
             in take 1 (since s s') = [diagnostic] \<and> callees (since s s') = [q])))"
proof -
  let ?reg = "SetUnitySendMessageCallback env_a this_a p s"
  let ?unreg = "SetUnitySendMessageCallback env_b this_b 0 ?reg"
  let ?deliver = "Enter_UnitySendMessage env thisObject targetString methodString messageString"
  have unreg: "?unreg = s\<lparr>unitySendMessageCallback := 0\<rparr>"
    and reg: "?reg = s\<lparr>unitySendMessageCallback := p\<rparr>"
    by (simp_all add: entry_defs)
  have a: "p \<noteq> 0 \<longrightarrow> callees (since s (final (enter h ?deliver ?reg))) = [p]"
    unfolding reg by (simp add: entry_defs call_defs Let_def since_def final_def)
  have b: "unitySendMessageCallback ?unreg = 0"
    unfolding unreg by simp
  have c: "enter h ?deliver ?unreg = Inr (?unreg\<lparr>effects := effects ?unreg @ [diagnostic]\<rparr>)"
    using b by (simp add: delivery_without_deliverer)
  have d: "\<forall>ds. (\<forall>c\<in>set ds. is_delivery c) \<longrightarrow>
            run h ds ?unreg =
              Inr (?unreg\<lparr>effects := effects ?unreg @ replicate (length ds) diagnostic\<rparr>)"
    using b by (intro allI impI deliveries_without_deliverer)
  have e: "q \<noteq> 0 \<longrightarrow>
            (let s' = final (run h [?deliver,
                         Enter_SetUnitySendMessageCallback env_c this_c q, ?deliver] ?unreg)
             in take 1 (since s s') = [diagnostic] \<and> callees (since s s') = [q])"
    unfolding unreg
    by (simp add: entry_defs call_defs Let_def since_def final_def diagnostic_def)
  show ?thesis
    unfolding Let_def by (intro conjI a b c d e [unfolded Let_def])
qed

theorem registering_null_unregisters_witness:
  "(0x5000 :: 64 word) \<noteq> 0 \<and> (0x6000 :: 64 word) \<noteq> 0
   \<and> is_delivery
        (Enter_UnitySendMessage (JNIEnv 7) (jobject 9) (jstring 10) (jstring 20) (jstring 30)
          :: 64 word entry)
   \<and> is_delivery
        (Enter_UnitySendMessage (JNIEnv 7) (jobject 9) (jstring 10) (jstring 20) (jstring 40)
          :: 64 word entry)
   \<and> run demo_host
        [Enter_SetUnitySendMessageCallback (JNIEnv 7) (jobject 9) 0x5000,
         Enter_SetUnitySendMessageCallback (JNIEnv 7) (jobject 9) 0,
         Enter_UnitySendMessage (JNIEnv 7) (jobject 9) (jstring 10) (jstring 20) (jstring 30),
         Enter_UnitySendMessage (JNIEnv 7) (jobject 9) (jstring 10) (jstring 20) (jstring 40)]
        initial
      = Inr (initial\<lparr>effects := [diagnostic, diagnostic]\<rparr>)
   \<and> callees (since initial (final (run demo_host
        [Enter_SetUnitySendMessageCallback (JNIEnv 7) (jobject 9) 0x5000,
         Enter_UnitySendMessage (JNIEnv 7) (jobject 9) (jstring 10) (jstring 20) (jstring 30),
         Enter_SetUnitySendMessageCallback (JNIEnv 7) (jobject 9) 0,
         Enter_UnitySendMessage (JNIEnv 7) (jobject 9) (jstring 10) (jstring 20) (jstring 30),
         Enter_SetUnitySendMessageCallback (JNIEnv 7) (jobject 9) 0x6000,
         Enter_UnitySendMessage (JNIEnv 7) (jobject 9) (jstring 10) (jstring 20) (jstring 30)]
        initial))) = [0x5000, 0x6000]"
  using registering_null_unregisters
    [where h = demo_host and s = "initial :: 64 word shim" and p = "0x5000" and q = "0x6000"
      and env_a = "JNIEnv 7" and this_a = "jobject 9" and env_b = "JNIEnv 7"
      and this_b = "jobject 9" and env_c = "JNIEnv 7" and this_c = "jobject 9"
      and env = "JNIEnv 7" and thisObject = "jobject 9" and targetString = "jstring 10"
      and methodString = "jstring 20" and messageString = "jstring 30"]
  by (simp add: eval_defs)

end
